theory Spec2Isabelle
  imports Main
begin

section \<open>The hosted store: tables, constraints and calls\<close>

text \<open>
  The front-end talks to two tables of a hosted relational store. Their shape and their
  CHECK constraints are those of the migration that creates them (\<open>profiles\<close> and
  \<open>transactions\<close>). Money columns are \<open>DECIMAL(12,2)\<close>: a value is modelled by its number
  of hundredths (paise), an \<open>int\<close>, which is what the forms' \<open>step="0.01"\<close> inputs denote.
  The handlers add and subtract such amounts and compare them with each other and with
  zero; the model does the same on the exact values.
  Generated columns (\<open>id\<close>, \<open>created_at\<close>, \<open>updated_at\<close>) are left out: no handler reads
  them, and creation order is the order of the list of rows.
\<close>

record edit_form =
  name :: string
  phone :: string
  account_type :: string

record profile_row = edit_form +
  balance :: int

record txn_row =
  user_id :: string
  amount :: int
  transaction_type :: string
  description :: string
  balance_after :: int

record database =
  profiles :: "string \<rightharpoonup> profile_row"
  transactions :: "txn_row list"

text \<open>
  A call to the store answers with data or with an error that carries a message
  (the client's \<open>{ data, error }\<close>). The store is outside the program: a call may fail
  for reasons the program does not control (network, access policy, numeric overflow of
  a column). Such a refusal is the \<open>fault\<close> argument of each call: \<open>Some msg\<close> makes the
  call fail with that message and leaves the tables alone. The CHECK constraints of the
  two tables are written out.
\<close>

datatype 'a response = Data 'a | Error string

definition no_rows :: string where
  "no_rows = ''JSON object requested, multiple (or no) rows returned''"

definition profiles_account_type_check :: "string \<Rightarrow> bool" where
  "profiles_account_type_check t \<longleftrightarrow> t = ''savings'' \<or> t = ''current''"

definition transactions_transaction_type_check :: "string \<Rightarrow> bool" where
  "transactions_transaction_type_check t \<longleftrightarrow> t = ''deposit'' \<or> t = ''withdraw''"

definition check_violation :: "string \<Rightarrow> string" where
  "check_violation c = ''new row violates check constraint '' @ c"

text \<open>\<open>from('profiles').select(...).eq('user_id', uid).single()\<close>: an error when no row matches.\<close>

definition select_profile :: "string option \<Rightarrow> string \<Rightarrow> database \<Rightarrow> profile_row response" where
  "select_profile fault uid db =
     (case fault of
        Some msg \<Rightarrow> Error msg
      | None \<Rightarrow> (case profiles db uid of None \<Rightarrow> Error no_rows | Some r \<Rightarrow> Data r))"

text \<open>
  \<open>from('profiles').update({ balance: v }).eq('user_id', uid)\<close>: every matching row is
  updated; matching no row is not an error.
\<close>

definition update_balance ::
  "string option \<Rightarrow> string \<Rightarrow> int \<Rightarrow> database \<Rightarrow> unit response \<times> database" where
  "update_balance fault uid v db =
     (case fault of
        Some msg \<Rightarrow> (Error msg, db)
      | None \<Rightarrow>
          (case profiles db uid of
             None \<Rightarrow> (Data (), db)
           | Some r \<Rightarrow> (Data (), db\<lparr>profiles := (profiles db)(uid \<mapsto> r\<lparr>balance := v\<rparr>)\<rparr>)))"

text \<open>\<open>from('profiles').update({ name, phone, account_type }).eq('user_id', uid)\<close>.\<close>

definition update_profile ::
  "string option \<Rightarrow> string \<Rightarrow> edit_form \<Rightarrow> database \<Rightarrow> unit response \<times> database" where
  "update_profile fault uid f db =
     (case fault of
        Some msg \<Rightarrow> (Error msg, db)
      | None \<Rightarrow>
          (case profiles db uid of
             None \<Rightarrow> (Data (), db)
           | Some r \<Rightarrow>
               if profiles_account_type_check (account_type f)
               then (Data (), db\<lparr>profiles := (profiles db)(uid \<mapsto>
                       r\<lparr>name := name f, phone := phone f, account_type := account_type f\<rparr>)\<rparr>)
               else (Error (check_violation ''profiles_account_type_check''), db)))"

text \<open>\<open>from('transactions').insert(row)\<close>: the row is appended when it passes the CHECK.\<close>

definition insert_transaction ::
  "string option \<Rightarrow> txn_row \<Rightarrow> database \<Rightarrow> unit response \<times> database" where
  "insert_transaction fault row db =
     (case fault of
        Some msg \<Rightarrow> (Error msg, db)
      | None \<Rightarrow>
          if transactions_transaction_type_check (transaction_type row)
          then (Data (), db\<lparr>transactions := transactions db @ [row]\<rparr>)
          else (Error (check_violation ''transactions_transaction_type_check''), db))"

text \<open>
  \<open>from('transactions').select('*').eq('user_id', uid).order('created_at', { ascending: false })\<close>:
  the owner's rows, newest first.
\<close>

definition select_transactions :: "string option \<Rightarrow> string \<Rightarrow> database \<Rightarrow> txn_row list response" where
  "select_transactions fault uid db =
     (case fault of
        Some msg \<Rightarrow> Error msg
      | None \<Rightarrow> Data (rev (filter (\<lambda>t. user_id t = uid) (transactions db))))"

section \<open>What a handler tells the user\<close>

text \<open>
  Every handler ends with a toast or returns silently. The toasts are kept by kind: the
  success toast, the \<open>Insufficient Funds\<close> toast, the \<open>Invalid Amount\<close> toast, and the
  destructive error toast with its description; \<open>NoOp\<close> is a return with no toast and no
  store call.
\<close>

datatype outcome = Success | InsufficientFunds | InvalidAmount | Failed string | NoOp

section \<open>The banking operations component\<close>

datatype txn_type = Deposit | Withdraw

fun type_literal :: "txn_type \<Rightarrow> string" where
  "type_literal Deposit = ''deposit''"
| "type_literal Withdraw = ''withdraw''"

record faults =
  fetch_fault :: "string option"
  update_fault :: "string option"
  insert_fault :: "string option"

definition no_faults :: faults where
  "no_faults = \<lparr>fetch_fault = None, update_fault = None, insert_fault = None\<rparr>"

text \<open>The catch block's description: \<open>error.message || 'Transaction failed. Please try again.'\<close>.\<close>

definition error_description :: "string \<Rightarrow> string" where
  "error_description msg = (if msg = [] then ''Transaction failed. Please try again.'' else msg)"

text \<open>The description written to the record: \<open>description || `${...} transaction`\<close>.\<close>

definition default_description :: "txn_type \<Rightarrow> string \<Rightarrow> string" where
  "default_description ty descr =
     (if descr = [] then (if ty = Deposit then ''Deposit'' else ''Withdrawal'') @ '' transaction''
      else descr)"

text \<open>
  \<open>handleTransaction(type, amount, description)\<close> of the component, with the component's
  inputs made explicit: \<open>user\<close> from the auth context and the \<open>currentBalance\<close> prop, the
  parent's cached copy of the balance.
\<close>

definition handleTransaction ::
  "faults \<Rightarrow> string option \<Rightarrow> int \<Rightarrow> txn_type \<Rightarrow> int \<Rightarrow> string \<Rightarrow> database
     \<Rightarrow> outcome \<times> database" where
  "handleTransaction flt user currentBalance ty amt descr db =
     (case user of
        None \<Rightarrow> (NoOp, db)
      | Some uid \<Rightarrow>
          let newBalance = (if ty = Deposit then currentBalance + amt else currentBalance - amt) in
          if ty = Withdraw \<and> newBalance < 0 then (InsufficientFunds, db)
          else
            (case select_profile (fetch_fault flt) uid db of
               Error msg \<Rightarrow> (Failed (error_description msg), db)
             | Data currentProfile \<Rightarrow>
                 let updatedBalance =
                       (if ty = Deposit then balance currentProfile + amt
                        else balance currentProfile - amt) in
                 if ty = Withdraw \<and> updatedBalance < 0 then (InsufficientFunds, db)
                 else
                   (case update_balance (update_fault flt) uid updatedBalance db of
                      (Error msg, db1) \<Rightarrow> (Failed (error_description msg), db1)
                    | (Data _, db1) \<Rightarrow>
                        (case insert_transaction (insert_fault flt)
                                \<lparr>user_id = uid, amount = amt,
                                 transaction_type = type_literal ty,
                                 description = default_description ty descr,
                                 balance_after = updatedBalance\<rparr> db1 of
                           (Error msg, db2) \<Rightarrow> (Failed (error_description msg), db2)
                         | (Data _, db2) \<Rightarrow> (Success, db2)))))"

text \<open>The two submit handlers: the amount parsed from the form, then the checks, then the call.\<close>

definition handleDepositSubmit ::
  "faults \<Rightarrow> string option \<Rightarrow> int \<Rightarrow> int \<Rightarrow> string \<Rightarrow> database \<Rightarrow> outcome \<times> database" where
  "handleDepositSubmit flt user currentBalance amt descr db =
     (if amt \<le> 0 then (InvalidAmount, db)
      else handleTransaction flt user currentBalance Deposit amt descr db)"

definition handleWithdrawSubmit ::
  "faults \<Rightarrow> string option \<Rightarrow> int \<Rightarrow> int \<Rightarrow> string \<Rightarrow> database \<Rightarrow> outcome \<times> database" where
  "handleWithdrawSubmit flt user currentBalance amt descr db =
     (if amt \<le> 0 then (InvalidAmount, db)
      else if amt > currentBalance then (InsufficientFunds, db)
      else handleTransaction flt user currentBalance Withdraw amt descr db)"

text \<open>
  Calls made one after another, each finished before the next begins. A call carries
  what the component hands to \<open>handleTransaction\<close> at that moment, the \<open>currentBalance\<close>
  prop included, and the faults the store shows during it.
\<close>

record call =
  call_faults :: faults
  call_cached :: int
  call_type :: txn_type
  call_amount :: int
  call_description :: string

definition run_call :: "string option \<Rightarrow> call \<Rightarrow> database \<Rightarrow> outcome \<times> database" where
  "run_call user c db =
     handleTransaction (call_faults c) user (call_cached c) (call_type c) (call_amount c)
       (call_description c) db"

fun run_calls :: "string option \<Rightarrow> database \<Rightarrow> call list \<Rightarrow> outcome list \<times> database" where
  "run_calls user db [] = ([], db)"
| "run_calls user db (c # cs) =
     (case run_call user c db of
        (out, db1) \<Rightarrow> (case run_calls user db1 cs of (outs, db2) \<Rightarrow> (out # outs, db2)))"

text \<open>The signed amount of a call, and of a persisted record (as the history views sign it).\<close>

definition signed_amount :: "txn_type \<Rightarrow> int \<Rightarrow> int" where
  "signed_amount ty amt = (if ty = Deposit then amt else - amt)"

definition record_signed :: "txn_row \<Rightarrow> int" where
  "record_signed t = (if transaction_type t = ''deposit'' then amount t else - amount t)"

definition replay :: "int \<Rightarrow> txn_row list \<Rightarrow> int" where
  "replay b ts = foldl (\<lambda>acc t. acc + record_signed t) b ts"

definition call_signed :: "call \<Rightarrow> int" where
  "call_signed c = signed_amount (call_type c) (call_amount c)"

text \<open>The sum of the signed amounts of the calls that ended with the success toast.\<close>

fun succeeded_total :: "int list \<Rightarrow> outcome list \<Rightarrow> int" where
  "succeeded_total (k # ks) (out # outs) =
     (if out = Success then k else 0) + succeeded_total ks outs"
| "succeeded_total _ _ = 0"

definition stored_balance :: "database \<Rightarrow> string \<Rightarrow> int option" where
  "stored_balance db uid = map_option balance (profiles db uid)"

text \<open>The owner's records that were appended between two states of the store, oldest first.\<close>

definition records_since :: "database \<Rightarrow> database \<Rightarrow> string \<Rightarrow> txn_row list" where
  "records_since db db' uid =
     filter (\<lambda>t. user_id t = uid) (drop (length (transactions db)) (transactions db'))"

section \<open>The calls of one transaction, one store call at a time\<close>

text \<open>
  \<open>handleTransaction\<close> is an async function: it gives up control at each \<open>await\<close>, once per
  store call. Between two of its store calls the store may serve another invocation for
  the same owner, for instance from a second tab or device on which the user is signed
  in (the submit button is disabled only within the component whose call is running).
  A task is one invocation, stopped before its next store call, with the local value it
  carries (\<open>updatedBalance\<close>). The check against the \<open>currentBalance\<close> prop runs when the
  invocation starts, together with the read.
\<close>

datatype task = Pending | Fetched int | Updated int | Done outcome

definition task_step ::
  "faults \<Rightarrow> string \<Rightarrow> int \<Rightarrow> txn_type \<Rightarrow> int \<Rightarrow> string \<Rightarrow> task \<Rightarrow> database
     \<Rightarrow> task \<times> database" where
  "task_step flt uid currentBalance ty amt descr t db =
     (case t of
        Pending \<Rightarrow>
          let newBalance = (if ty = Deposit then currentBalance + amt else currentBalance - amt) in
          if ty = Withdraw \<and> newBalance < 0 then (Done InsufficientFunds, db)
          else
            (case select_profile (fetch_fault flt) uid db of
               Error msg \<Rightarrow> (Done (Failed (error_description msg)), db)
             | Data currentProfile \<Rightarrow>
                 let updatedBalance =
                       (if ty = Deposit then balance currentProfile + amt
                        else balance currentProfile - amt) in
                 if ty = Withdraw \<and> updatedBalance < 0 then (Done InsufficientFunds, db)
                 else (Fetched updatedBalance, db))
      | Fetched updatedBalance \<Rightarrow>
          (case update_balance (update_fault flt) uid updatedBalance db of
             (Error msg, db1) \<Rightarrow> (Done (Failed (error_description msg)), db1)
           | (Data _, db1) \<Rightarrow> (Updated updatedBalance, db1))
      | Updated updatedBalance \<Rightarrow>
          (case insert_transaction (insert_fault flt)
                  \<lparr>user_id = uid, amount = amt,
                   transaction_type = type_literal ty,
                   description = default_description ty descr,
                   balance_after = updatedBalance\<rparr> db of
             (Error msg, db2) \<Rightarrow> (Done (Failed (error_description msg)), db2)
           | (Data _, db2) \<Rightarrow> (Done Success, db2))
      | Done out \<Rightarrow> (Done out, db))"

text \<open>
  A schedule names, step by step, which of the running invocations makes its next store
  call; all of them are calls of the same signed-in user.
\<close>

definition advance :: "string \<Rightarrow> call list \<Rightarrow> nat \<Rightarrow> task list \<times> database \<Rightarrow> task list \<times> database" where
  "advance uid cs i cfg =
     (case cfg of (ts, db) \<Rightarrow>
        if i < length ts \<and> i < length cs then
          (case task_step (call_faults (cs ! i)) uid (call_cached (cs ! i)) (call_type (cs ! i))
                  (call_amount (cs ! i)) (call_description (cs ! i)) (ts ! i) db of
             (t, db1) \<Rightarrow> (ts[i := t], db1))
        else (ts, db))"

definition run_schedule ::
  "string \<Rightarrow> call list \<Rightarrow> nat list \<Rightarrow> task list \<times> database \<Rightarrow> task list \<times> database" where
  "run_schedule uid cs sched cfg = foldl (\<lambda>cfg i. advance uid cs i cfg) cfg sched"

text \<open>
  The schedule in which the invocations run one after another: each makes its three store
  calls before the next one starts.
\<close>

definition serial :: "nat \<Rightarrow> nat list" where
  "serial n = concat (map (\<lambda>i. [i, i, i]) [0..<n])"

definition call_step :: "string \<Rightarrow> call \<Rightarrow> task \<Rightarrow> database \<Rightarrow> task \<times> database" where
  "call_step uid c t db =
     task_step (call_faults c) uid (call_cached c) (call_type c) (call_amount c)
       (call_description c) t db"

text \<open>One invocation run to its end with nothing in between.\<close>

definition three_steps ::
  "faults \<Rightarrow> string \<Rightarrow> int \<Rightarrow> txn_type \<Rightarrow> int \<Rightarrow> string \<Rightarrow> database \<Rightarrow> task \<times> database" where
  "three_steps flt uid cb ty amt descr db =
     (case task_step flt uid cb ty amt descr Pending db of
        (t1, db1) \<Rightarrow>
          (case task_step flt uid cb ty amt descr t1 db1 of
             (t2, db2) \<Rightarrow> task_step flt uid cb ty amt descr t2 db2))"

text \<open>
  An invocation is finished when it has shown its toast. For deposits that meet no store
  fault, the invariant of an interleaved run: the owner's row is there, an invocation
  that has finished has succeeded, and the table has grown by one record for each.
\<close>

definition finished :: "task \<Rightarrow> bool" where
  "finished t = (case t of Done out \<Rightarrow> True | _ \<Rightarrow> False)"

definition succeeded :: "task \<Rightarrow> nat" where
  "succeeded t = (if t = Done Success then 1 else 0)"

definition deposits_inv :: "string \<Rightarrow> nat \<Rightarrow> task list \<times> database \<Rightarrow> bool" where
  "deposits_inv uid m cfg \<longleftrightarrow>
     profiles (snd cfg) uid \<noteq> None
     \<and> list_all (\<lambda>t. finished t \<longrightarrow> t = Done Success) (fst cfg)
     \<and> length (transactions (snd cfg)) = m + sum_list (map succeeded (fst cfg))"

section \<open>The dashboard page's own handlers\<close>

text \<open>
  The page \<open>src/pages/Dashboard.tsx\<close> has its own \<open>handleDeposit\<close> and \<open>handleWithdraw\<close>.
  They work from the page's \<open>profile\<close> state, fetched when the page mounts, and from the
  text of the amount field: \<open>None\<close> is the empty field, \<open>Some a\<close> a field whose text parses
  to \<open>a\<close>. The page is rendered for a signed-in user only, whose id is \<open>uid\<close>. The result
  holds the page's \<open>profile\<close> state after the handler. Of \<open>faults\<close> only the update and the
  insert matter here: the handlers do not read the store. The cached balance is modelled,
  like every amount, by its hundredths. The page keeps the JavaScript number that its
  handler computed, which can differ from the rounded value in the store by a fraction
  of a hundredth, so what is stated about the page speaks of one submission at a time
  and says what it assumes about the cached balance.
\<close>

definition handleDeposit ::
  "faults \<Rightarrow> string \<Rightarrow> profile_row option \<Rightarrow> int option \<Rightarrow> database
     \<Rightarrow> outcome \<times> profile_row option \<times> database" where
  "handleDeposit flt uid cached depositAmount db =
     (case (cached, depositAmount) of
        (Some p, Some amt) \<Rightarrow>
          let newBalance = balance p + amt in
          (case update_balance (update_fault flt) uid newBalance db of
             (Error msg, db1) \<Rightarrow> (Failed msg, cached, db1)
           | (Data _, db1) \<Rightarrow>
               (case insert_transaction (insert_fault flt)
                       \<lparr>user_id = uid, amount = amt, transaction_type = ''deposit'',
                        description = ''Account Deposit'', balance_after = newBalance\<rparr> db1 of
                  (Error msg, db2) \<Rightarrow> (Failed msg, cached, db2)
                | (Data _, db2) \<Rightarrow> (Success, Some (p\<lparr>balance := newBalance\<rparr>), db2)))
      | _ \<Rightarrow> (NoOp, cached, db))"

definition handleWithdraw ::
  "faults \<Rightarrow> string \<Rightarrow> profile_row option \<Rightarrow> int option \<Rightarrow> database
     \<Rightarrow> outcome \<times> profile_row option \<times> database" where
  "handleWithdraw flt uid cached withdrawAmount db =
     (case (cached, withdrawAmount) of
        (Some p, Some amt) \<Rightarrow>
          if amt > balance p then (InsufficientFunds, cached, db)
          else
            let newBalance = balance p - amt in
            (case update_balance (update_fault flt) uid newBalance db of
               (Error msg, db1) \<Rightarrow> (Failed msg, cached, db1)
             | (Data _, db1) \<Rightarrow>
                 (case insert_transaction (insert_fault flt)
                         \<lparr>user_id = uid, amount = amt, transaction_type = ''withdraw'',
                          description = ''Account Withdrawal'', balance_after = newBalance\<rparr> db1 of
                    (Error msg, db2) \<Rightarrow> (Failed msg, cached, db2)
                  | (Data _, db2) \<Rightarrow> (Success, Some (p\<lparr>balance := newBalance\<rparr>), db2)))
      | _ \<Rightarrow> (NoOp, cached, db))"

text \<open>A submission of either form of the page.\<close>

record page_call =
  page_faults :: faults
  page_type :: txn_type
  page_field :: "int option"

definition run_page_call ::
  "string \<Rightarrow> page_call \<Rightarrow> profile_row option \<Rightarrow> database
     \<Rightarrow> outcome \<times> profile_row option \<times> database" where
  "run_page_call uid c cached db =
     (if page_type c = Deposit then handleDeposit (page_faults c) uid cached (page_field c) db
      else handleWithdraw (page_faults c) uid cached (page_field c) db)"

text \<open>
  The handlers are bound as \<open>onSubmit\<close> of two forms, and to nothing else. Each form has one
  amount input, \<open>type="number" min="0.01" step="0.01" required\<close>, the withdraw form's also
  \<open>max={profile.balance}\<close>, and neither form sets \<open>noValidate\<close>: the browser fires the submit
  event only when the field holds a number that meets these constraints. In hundredths:
  the field is not empty, its value is at least 1 and at most the maximum if there is
  one. The forms are rendered only once the profile has loaded. \<open>None\<close> is a submission
  that the browser refuses: no handler runs.
\<close>

definition amount_input_valid :: "int option \<Rightarrow> int option \<Rightarrow> bool" where
  "amount_input_valid maxv field =
     (case field of
        None \<Rightarrow> False
      | Some a \<Rightarrow> 1 \<le> a \<and> (case maxv of None \<Rightarrow> True | Some m \<Rightarrow> a \<le> m))"

definition deposit_form_valid :: "profile_row option \<Rightarrow> int option \<Rightarrow> bool" where
  "deposit_form_valid cached field =
     (case cached of None \<Rightarrow> False | Some p \<Rightarrow> amount_input_valid None field)"

definition withdraw_form_valid :: "profile_row option \<Rightarrow> int option \<Rightarrow> bool" where
  "withdraw_form_valid cached field =
     (case cached of None \<Rightarrow> False | Some p \<Rightarrow> amount_input_valid (Some (balance p)) field)"

definition deposit_form_submit ::
  "faults \<Rightarrow> string \<Rightarrow> profile_row option \<Rightarrow> int option \<Rightarrow> database
     \<Rightarrow> (outcome \<times> profile_row option \<times> database) option" where
  "deposit_form_submit flt uid cached field db =
     (if deposit_form_valid cached field then Some (handleDeposit flt uid cached field db)
      else None)"

definition withdraw_form_submit ::
  "faults \<Rightarrow> string \<Rightarrow> profile_row option \<Rightarrow> int option \<Rightarrow> database
     \<Rightarrow> (outcome \<times> profile_row option \<times> database) option" where
  "withdraw_form_submit flt uid cached field db =
     (if withdraw_form_valid cached field then Some (handleWithdraw flt uid cached field db)
      else None)"

section \<open>The transactions page and the profile page\<close>

text \<open>
  \<open>fetchTransactions\<close> of the transactions page replaces the page's list by the owner's
  rows, newest first; on an error the list stays as it was. The three summary cards count
  that list.
\<close>

definition fetchTransactions :: "string option \<Rightarrow> string \<Rightarrow> database \<Rightarrow> txn_row list \<Rightarrow> txn_row list" where
  "fetchTransactions fault uid db shown =
     (case select_transactions fault uid db of Error msg \<Rightarrow> shown | Data rows \<Rightarrow> rows)"

definition totalTransactions :: "txn_row list \<Rightarrow> nat" where
  "totalTransactions shown = length shown"

definition totalDeposits :: "txn_row list \<Rightarrow> nat" where
  "totalDeposits shown = length (filter (\<lambda>t. transaction_type t = ''deposit'') shown)"

definition totalWithdrawals :: "txn_row list \<Rightarrow> nat" where
  "totalWithdrawals shown = length (filter (\<lambda>t. transaction_type t = ''withdrawal'') shown)"

text \<open>
  The profile page keeps the fetched \<open>profile\<close>, the \<open>editForm\<close> and the \<open>isEditing\<close> flag.
  The account type select of the form offers three values.
\<close>

record profile_page =
  profile :: "profile_row option"
  editForm :: edit_form
  isEditing :: bool

definition account_type_options :: "string list" where
  "account_type_options = [''savings'', ''current'', ''fixed'']"

definition handleSaveProfile ::
  "string option \<Rightarrow> string \<Rightarrow> profile_page \<Rightarrow> database \<Rightarrow> outcome \<times> profile_page \<times> database" where
  "handleSaveProfile fault uid page db =
     (case profile page of
        None \<Rightarrow> (NoOp, page, db)
      | Some p \<Rightarrow>
          (case update_profile fault uid (editForm page) db of
             (Error msg, db1) \<Rightarrow> (Failed ''Failed to update profile'', page, db1)
           | (Data _, db1) \<Rightarrow>
               (Success,
                page\<lparr>profile := Some (p\<lparr>name := name (editForm page),
                                         phone := phone (editForm page),
                                         account_type := account_type (editForm page)\<rparr>),
                     isEditing := False\<rparr>,
                db1)))"

section \<open>Histories of the whole front-end\<close>

text \<open>
  What a signed-in user can do to the store through the front-end: submit either form of
  the banking operations component, submit either form of the dashboard page, save the
  profile form. An event carries the user's id and what the handler finds in the
  component's state at that moment.
\<close>

datatype event =
    DepositSubmit faults int int string
  | WithdrawSubmit faults int int string
  | PageDeposit faults "profile_row option" "int option"
  | PageWithdraw faults "profile_row option" "int option"
  | SaveProfile "string option" profile_page

fun apply_event :: "string \<Rightarrow> event \<Rightarrow> database \<Rightarrow> database" where
  "apply_event uid (DepositSubmit flt cb amt descr) db =
     snd (handleDepositSubmit flt (Some uid) cb amt descr db)"
| "apply_event uid (WithdrawSubmit flt cb amt descr) db =
     snd (handleWithdrawSubmit flt (Some uid) cb amt descr db)"
| "apply_event uid (PageDeposit flt cached field) db =
     snd (snd (handleDeposit flt uid cached field db))"
| "apply_event uid (PageWithdraw flt cached field) db =
     snd (snd (handleWithdraw flt uid cached field db))"
| "apply_event uid (SaveProfile fault page) db =
     snd (snd (handleSaveProfile fault uid page db))"

definition run_events :: "database \<Rightarrow> (string \<times> event) list \<Rightarrow> database" where
  "run_events db es = foldl (\<lambda>db (uid, e). apply_event uid e db) db es"

text \<open>Every row of the transactions table passes the table's CHECK.\<close>

definition table_checked :: "database \<Rightarrow> bool" where
  "table_checked db = list_all (\<lambda>t. transactions_transaction_type_check (transaction_type t))
     (transactions db)"

text \<open>
  An event that the front-end can bring about. The submit handlers of the banking
  operations component check their amount themselves, so any amount is allowed there. A
  handler of the dashboard page runs only when its form is valid, and the balance in the
  page's \<open>profile\<close> state, which was read from the store or computed by an earlier
  submission, is not negative.
\<close>

definition cached_nonneg :: "profile_row option \<Rightarrow> bool" where
  "cached_nonneg cached = (case cached of None \<Rightarrow> True | Some p \<Rightarrow> 0 \<le> balance p)"

fun receivable :: "event \<Rightarrow> bool" where
  "receivable (DepositSubmit flt cb amt descr) = True"
| "receivable (WithdrawSubmit flt cb amt descr) = True"
| "receivable (PageDeposit flt cached field) =
     (deposit_form_valid cached field \<and> cached_nonneg cached)"
| "receivable (PageWithdraw flt cached field) =
     (withdraw_form_valid cached field \<and> cached_nonneg cached)"
| "receivable (SaveProfile fault page) = True"

text \<open>The stored balance of a user, if the user has a profile row, is not negative.\<close>

definition balance_ok :: "database \<Rightarrow> string \<Rightarrow> bool" where
  "balance_ok db u = (case profiles db u of None \<Rightarrow> True | Some r \<Rightarrow> 0 \<le> balance r)"

section \<open>Example data\<close>

definition asha :: profile_row where
  "asha = \<lparr>name = ''Asha'', phone = ''5550100'', account_type = ''savings'', balance = 10000\<rparr>"

definition bank :: database where
  "bank = \<lparr>profiles = [''u1'' \<mapsto> asha], transactions = []\<rparr>"

definition deposit50 :: call where
  "deposit50 = \<lparr>call_faults = no_faults, call_cached = 10000, call_type = Deposit,
     call_amount = 5000, call_description = []\<rparr>"

definition withdraw30 :: call where
  "withdraw30 = \<lparr>call_faults = no_faults, call_cached = 15000, call_type = Withdraw,
     call_amount = 3000, call_description = ''rent''\<rparr>"

definition insert_times_out :: faults where
  "insert_times_out = \<lparr>fetch_fault = None, update_fault = None, insert_fault = Some ''timeout''\<rparr>"

definition update_times_out :: faults where
  "update_times_out = \<lparr>fetch_fault = None, update_fault = Some ''timeout'', insert_fault = None\<rparr>"

definition deposit50_insert_fails :: call where
  "deposit50_insert_fails = \<lparr>call_faults = insert_times_out, call_cached = 10000,
     call_type = Deposit, call_amount = 5000, call_description = []\<rparr>"

definition page_deposit50 :: page_call where
  "page_deposit50 = \<lparr>page_faults = no_faults, page_type = Deposit, page_field = Some 5000\<rparr>"

definition two_deposits :: "call list" where
  "two_deposits = [deposit50, deposit50]"

definition editing_fixed :: profile_page where
  "editing_fixed = \<lparr>profile = Some asha,
     editForm = \<lparr>name = ''Asha'', phone = ''5550100'', account_type = ''fixed''\<rparr>,
     isEditing = True\<rparr>"

definition deposit_then_withdraw :: "(string \<times> event) list" where
  "deposit_then_withdraw =
     [(''u1'', DepositSubmit no_faults 10000 5000 []),
      (''u1'', WithdrawSubmit no_faults 15000 3000 ''rent'')]"

definition mixed_history :: "(string \<times> event) list" where
  "mixed_history =
     [(''u1'', DepositSubmit no_faults 10000 5000 []),
      (''u1'', PageWithdraw no_faults (Some (asha\<lparr>balance := 15000\<rparr>)) (Some 3000)),
      (''u1'', DepositSubmit no_faults 12000 (- 5000) []),
      (''u1'', PageDeposit no_faults (Some (asha\<lparr>balance := 12000\<rparr>)) (Some 100))]"

section \<open>Basic facts about the handlers\<close>

lemmas handler_unfold = handleTransaction_def select_profile_def update_balance_def
  insert_transaction_def Let_def

lemmas page_defs = run_page_call_def handleDeposit_def handleWithdraw_def

lemmas example_defs = bank_def asha_def no_faults_def

lemmas page_eval = handleDeposit_def handleWithdraw_def update_balance_def insert_transaction_def
  transactions_transaction_type_check_def stored_balance_def

lemmas phase_defs = three_steps_def task_step_def handleTransaction_def Let_def

lemma type_literal_check [simp]: "transactions_transaction_type_check (type_literal ty)"
  by (cases ty) (simp_all add: transactions_transaction_type_check_def)

text \<open>A successful call wrote the re-read balance plus the signed amount, and one record.\<close>

lemma handleTransaction_Success:
  assumes "handleTransaction flt (Some uid) cb ty amt descr db = (Success, db')"
  shows "\<exists>r. profiles db uid = Some r \<and>
     db' = db\<lparr>profiles := (profiles db)(uid \<mapsto> r\<lparr>balance := balance r + signed_amount ty amt\<rparr>),
              transactions := transactions db @
                [\<lparr>user_id = uid, amount = amt, transaction_type = type_literal ty,
                  description = default_description ty descr,
                  balance_after = balance r + signed_amount ty amt\<rparr>]\<rparr>"
  using assms
  by (auto simp: handler_unfold signed_amount_def
      split: option.splits if_splits prod.splits response.splits)

text \<open>A call that did not succeed wrote nothing, unless its insert failed.\<close>

lemma handleTransaction_not_Success:
  assumes "handleTransaction flt (Some uid) cb ty amt descr db = (out, db')"
    and "out \<noteq> Success" and "insert_fault flt = None"
  shows "db' = db"
  using assms
  by (auto simp: handler_unfold split: option.splits if_splits prod.splits response.splits)

lemma replay_sum: "replay b ts = b + sum_list (map record_signed ts)"
  unfolding replay_def by (induction ts arbitrary: b) simp_all

lemma record_signed_literal:
  "record_signed \<lparr>user_id = u, amount = a, transaction_type = type_literal ty,
      description = d, balance_after = b\<rparr> = signed_amount ty a"
  by (cases ty) (simp_all add: record_signed_def signed_amount_def)

lemma records_since_appended:
  assumes "transactions db' = transactions db @ new" and "\<forall>t\<in>set new. user_id t = uid"
  shows "records_since db db' uid = new"
  using assms by (simp add: records_since_def)

section \<open>Conservation over calls made one after another\<close>

lemma run_call_step:
  assumes "run_call (Some uid) c db = (out, db1)" and "insert_fault (call_faults c) = None"
    and "profiles db uid = Some r"
  shows "\<exists>k new. profiles db1 uid = Some (r\<lparr>balance := balance r + k\<rparr>)
            \<and> transactions db1 = transactions db @ new
            \<and> (\<forall>t\<in>set new. user_id t = uid)
            \<and> sum_list (map record_signed new) = k
            \<and> k = (if out = Success then call_signed c else 0)"
proof (cases "out = Success")
  case True
  with assms(1) obtain r' where r': "profiles db uid = Some r'"
    and db1: "db1 = db\<lparr>profiles := (profiles db)(uid \<mapsto>
                  r'\<lparr>balance := balance r' + signed_amount (call_type c) (call_amount c)\<rparr>),
              transactions := transactions db @
                [\<lparr>user_id = uid, amount = call_amount c, transaction_type = type_literal (call_type c),
                  description = default_description (call_type c) (call_description c),
                  balance_after = balance r' + signed_amount (call_type c) (call_amount c)\<rparr>]\<rparr>"
    unfolding run_call_def using handleTransaction_Success by blast
  from r' assms(3) have "r' = r" by simp
  with db1 True show ?thesis
    by (simp add: record_signed_literal call_signed_def)
next
  case False
  with assms(1,2) have "db1 = db"
    unfolding run_call_def using handleTransaction_not_Success by blast
  with False assms(3) show ?thesis by simp
qed

lemma run_calls_conserve:
  assumes "\<forall>c\<in>set cs. insert_fault (call_faults c) = None"
    and "profiles db uid = Some r"
    and "run_calls (Some uid) db cs = (outs, db')"
  shows "\<exists>new. profiles db' uid =
            Some (r\<lparr>balance := balance r + succeeded_total (map call_signed cs) outs\<rparr>)
       \<and> transactions db' = transactions db @ new
       \<and> (\<forall>t\<in>set new. user_id t = uid)
       \<and> sum_list (map record_signed new) = succeeded_total (map call_signed cs) outs"
  using assms
proof (induction cs arbitrary: db r outs db')
  case Nil
  then show ?case by simp
next
  case (Cons c cs)
  obtain out db1 where step: "run_call (Some uid) c db = (out, db1)" by fastforce
  obtain outs1 db2 where rest: "run_calls (Some uid) db1 cs = (outs1, db2)" by fastforce
  from Cons.prems(3) step rest have outs: "outs = out # outs1" and db': "db' = db2" by simp_all
  from Cons.prems(1) have c: "insert_fault (call_faults c) = None"
    and cs: "\<forall>c\<in>set cs. insert_fault (call_faults c) = None" by simp_all
  from run_call_step [OF step c Cons.prems(2)] obtain k new where
    r1: "profiles db1 uid = Some (r\<lparr>balance := balance r + k\<rparr>)"
    and t1: "transactions db1 = transactions db @ new"
    and own: "\<forall>t\<in>set new. user_id t = uid"
    and rp: "sum_list (map record_signed new) = k"
    and k: "k = (if out = Success then call_signed c else 0)"
    by blast
  from Cons.IH [OF cs r1 rest] obtain new2 where
    b2: "profiles db2 uid =
           Some (r\<lparr>balance := balance r + k + succeeded_total (map call_signed cs) outs1\<rparr>)"
    and t2: "transactions db2 = transactions db1 @ new2"
    and own2: "\<forall>t\<in>set new2. user_id t = uid"
    and rp2: "sum_list (map record_signed new2) = succeeded_total (map call_signed cs) outs1"
    by auto
  have tot: "succeeded_total (map call_signed (c # cs)) outs
      = k + succeeded_total (map call_signed cs) outs1"
    using outs k by simp
  have "profiles db' uid =
      Some (r\<lparr>balance := balance r + succeeded_total (map call_signed (c # cs)) outs\<rparr>)"
    using b2 tot db' by (simp add: add.assoc)
  moreover have "transactions db' = transactions db @ (new @ new2)"
    using t1 t2 db' by simp
  moreover have "\<forall>t\<in>set (new @ new2). user_id t = uid"
    using own own2 by auto
  moreover have "sum_list (map record_signed (new @ new2))
      = succeeded_total (map call_signed (c # cs)) outs"
    using rp rp2 tot by simp
  ultimately show ?case by blast
qed

text \<open>
  Claim C1, as amended. \<open>handleTransaction\<close> calls are made one after another for one
  owner whose profile row exists, starting from the stored balance \<open>B0\<close>. If no insert of
  a transaction record fails, then after any sequence of calls (with whatever cached
  balance each call is handed) the stored balance is \<open>B0\<close> plus the signed amounts of the
  calls that succeeded, and replaying the owner's records appended since, oldest first,
  from \<open>B0\<close> gives the same number.
\<close>

theorem conservation_without_insert_failure:
  assumes "profiles db uid = Some r"
    and "\<forall>c\<in>set cs. insert_fault (call_faults c) = None"
    and "run_calls (Some uid) db cs = (outs, db')"
  shows "stored_balance db' uid = Some (balance r + succeeded_total (map call_signed cs) outs)
       \<and> replay (balance r) (records_since db db' uid)
            = balance r + succeeded_total (map call_signed cs) outs"
proof -
  from run_calls_conserve [OF assms(2,1,3)] obtain new where
    b: "profiles db' uid =
          Some (r\<lparr>balance := balance r + succeeded_total (map call_signed cs) outs\<rparr>)"
    and t: "transactions db' = transactions db @ new"
    and own: "\<forall>t\<in>set new. user_id t = uid"
    and rp: "sum_list (map record_signed new) = succeeded_total (map call_signed cs) outs"
    by blast
  have "stored_balance db' uid = Some (balance r + succeeded_total (map call_signed cs) outs)"
    using b by (simp add: stored_balance_def)
  moreover have "replay (balance r) (records_since db db' uid)
      = balance r + succeeded_total (map call_signed cs) outs"
    using records_since_appended [OF t own] rp by (simp add: replay_sum)
  ultimately show ?thesis by blast
qed

text \<open>A deposit of 50.00 and a withdrawal of 30.00 on a balance of 100.00.\<close>

lemma run_calls_example:
  "run_calls (Some ''u1'') bank [deposit50, withdraw30] =
   ([Success, Success],
    \<lparr>profiles = [''u1'' \<mapsto> asha\<lparr>balance := 12000\<rparr>],
     transactions =
       [\<lparr>user_id = ''u1'', amount = 5000, transaction_type = ''deposit'',
         description = ''Deposit transaction'', balance_after = 15000\<rparr>,
        \<lparr>user_id = ''u1'', amount = 3000, transaction_type = ''withdraw'',
         description = ''rent'', balance_after = 12000\<rparr>]\<rparr>)"
  by (simp add: run_call_def handler_unfold default_description_def
      transactions_transaction_type_check_def example_defs deposit50_def withdraw30_def)

theorem conservation_witness:
  "profiles bank ''u1'' = Some asha
   \<and> insert_fault (call_faults deposit50) = None \<and> insert_fault (call_faults withdraw30) = None
   \<and> fst (run_calls (Some ''u1'') bank [deposit50, withdraw30]) = [Success, Success]
   \<and> stored_balance (snd (run_calls (Some ''u1'') bank [deposit50, withdraw30])) ''u1'' = Some 12000
   \<and> replay 10000 (records_since bank
         (snd (run_calls (Some ''u1'') bank [deposit50, withdraw30])) ''u1'') = 12000"
  using conservation_without_insert_failure [of bank "''u1''" asha "[deposit50, withdraw30]"
      "fst (run_calls (Some ''u1'') bank [deposit50, withdraw30])"
      "snd (run_calls (Some ''u1'') bank [deposit50, withdraw30])"]
  unfolding run_calls_example
  by (simp add: example_defs deposit50_def withdraw30_def call_signed_def signed_amount_def)

text \<open>
  The claim as stated fails when an insert fails after the balance update: a deposit of
  50.00 on 100.00 ends with the error toast, so no call succeeded, yet the stored balance
  is 150.00 and no record was written.
\<close>

theorem conservation_counterexample:
  "fst (run_calls (Some ''u1'') bank [deposit50_insert_fails]) = [Failed ''timeout'']
   \<and> stored_balance bank ''u1'' = Some 10000
   \<and> succeeded_total (map call_signed [deposit50_insert_fails])
        (fst (run_calls (Some ''u1'') bank [deposit50_insert_fails])) = 0
   \<and> stored_balance (snd (run_calls (Some ''u1'') bank [deposit50_insert_fails])) ''u1'' = Some 15000
   \<and> stored_balance (snd (run_calls (Some ''u1'') bank [deposit50_insert_fails])) ''u1''
        \<noteq> Some (10000 + succeeded_total (map call_signed [deposit50_insert_fails])
              (fst (run_calls (Some ''u1'') bank [deposit50_insert_fails])))
   \<and> stored_balance (snd (run_calls (Some ''u1'') bank [deposit50_insert_fails])) ''u1''
        \<noteq> Some (replay 10000 (records_since bank
              (snd (run_calls (Some ''u1'') bank [deposit50_insert_fails])) ''u1''))"
  by (simp add: run_call_def handler_unfold error_description_def stored_balance_def
      records_since_def replay_def example_defs
      deposit50_insert_fails_def insert_times_out_def)

section \<open>Withdrawals and the funds checks\<close>




section \<open>A failed insert after a successful update\<close>

text \<open>
  Claim C6, as amended. When the read and the balance update succeed and the insert of
  the transaction record fails with message \<open>msg\<close>, \<open>handleTransaction\<close> does not report
  success: it ends with the ordinary error toast carrying that message, the very outcome
  of a call whose update fails with the same message and writes nothing. The updated
  balance stays in the store and no record is written: the inconsistency is neither
  prevented nor undone nor reported as an error of its own kind. The dashboard page's
  \<open>handleDeposit\<close> behaves alike: error toast, profile state kept, balance written.
\<close>

theorem insert_failure_leaves_balance_written:
  assumes "profiles db uid = Some r"
    and "fetch_fault flt = None" and "update_fault flt = None" and "insert_fault flt = Some msg"
    and "ty = Deposit \<or> (amt \<le> cb \<and> amt \<le> balance r)"
  shows "handleTransaction flt (Some uid) cb ty amt descr db =
           (Failed (error_description msg),
            db\<lparr>profiles := (profiles db)(uid \<mapsto> r\<lparr>balance := balance r + signed_amount ty amt\<rparr>)\<rparr>)
       \<and> handleTransaction (flt\<lparr>update_fault := Some msg\<rparr>) (Some uid) cb ty amt descr db =
           (Failed (error_description msg), db)
       \<and> handleDeposit flt uid (Some p) (Some amt) db =
           (Failed msg, Some p,
            db\<lparr>profiles := (profiles db)(uid \<mapsto> r\<lparr>balance := balance p + amt\<rparr>)\<rparr>)"
  using assms
  by (cases ty)
    (auto simp: handler_unfold handleDeposit_def signed_amount_def split: option.splits if_splits)

theorem insert_failure_witness:
  "profiles bank ''u1'' = Some asha
   \<and> fetch_fault insert_times_out = None \<and> update_fault insert_times_out = None
   \<and> insert_fault insert_times_out = Some ''timeout''
   \<and> fst (handleTransaction insert_times_out (Some ''u1'') 10000 Deposit 5000 [] bank)
        = Failed ''timeout''
   \<and> stored_balance (snd (handleTransaction insert_times_out (Some ''u1'') 10000 Deposit 5000 []
        bank)) ''u1'' = Some 15000
   \<and> transactions (snd (handleTransaction insert_times_out (Some ''u1'') 10000 Deposit 5000 []
        bank)) = transactions bank"
  using insert_failure_leaves_balance_written [of bank "''u1''" asha insert_times_out
      "''timeout''" Deposit 5000 10000 "[]" asha]
  by (simp add: example_defs insert_times_out_def stored_balance_def signed_amount_def error_description_def)

text \<open>
  The claim as stated fails on a deposit of 50.00 at 100.00 whose insert times out: the
  store ends with 150.00 and no record, and the outcome is the one that a timed-out
  update, which writes nothing, produces.
\<close>

theorem insert_failure_counterexample:
  "fst (handleTransaction insert_times_out (Some ''u1'') 10000 Deposit 5000 [] bank)
      = Failed ''timeout''
   \<and> stored_balance bank ''u1'' = Some 10000
   \<and> stored_balance (snd (handleTransaction insert_times_out (Some ''u1'') 10000 Deposit 5000 []
        bank)) ''u1'' = Some 15000
   \<and> transactions (snd (handleTransaction insert_times_out (Some ''u1'') 10000 Deposit 5000 []
        bank)) = []
   \<and> handleTransaction update_times_out (Some ''u1'') 10000 Deposit 5000 [] bank
        = (Failed ''timeout'', bank)"
  by (simp add: handler_unfold stored_balance_def error_description_def example_defs
      insert_times_out_def update_times_out_def)

section \<open>The description of a record\<close>

text \<open>
  Claim C7, as amended. A \<open>handleTransaction\<close> call that succeeds appends one record; when
  the description passed in is empty the record's description is \<open>Deposit transaction\<close>
  for a deposit and \<open>Withdrawal transaction\<close> for a withdrawal, otherwise it is the
  description passed in. The dashboard page's own handlers take no description: a
  successful submission appends one record described \<open>Account Deposit\<close> or
  \<open>Account Withdrawal\<close>.
\<close>

theorem default_description_written:
  assumes "handleTransaction flt (Some uid) cb ty amt descr db = (Success, db')"
    and "run_page_call uid c cached db = (Success, cached', db'')"
  shows "transactions db' = transactions db @ [last (transactions db')]
       \<and> description (last (transactions db')) =
           (if descr = [] then (if ty = Deposit then ''Deposit transaction''
                                else ''Withdrawal transaction'')
            else descr)
       \<and> transactions db'' = transactions db @ [last (transactions db'')]
       \<and> description (last (transactions db'')) =
           (if page_type c = Deposit then ''Account Deposit'' else ''Account Withdrawal'')"
proof -
  from handleTransaction_Success [OF assms(1)]
  have "transactions db' = transactions db @ [last (transactions db')]
       \<and> description (last (transactions db')) = default_description ty descr"
    by auto
  moreover have "transactions db'' = transactions db @ [last (transactions db'')]
       \<and> description (last (transactions db'')) =
           (if page_type c = Deposit then ''Account Deposit'' else ''Account Withdrawal'')"
    using assms(2)
    by (auto simp: page_defs update_balance_def insert_transaction_def Let_def
        split: option.splits if_splits)
  ultimately show ?thesis by (simp add: default_description_def)
qed

lemma deposit100_example:
  "handleTransaction no_faults (Some ''u1'') 10000 Deposit 10000 [] bank =
     (Success,
      \<lparr>profiles = [''u1'' \<mapsto> asha\<lparr>balance := 20000\<rparr>],
       transactions =
         [\<lparr>user_id = ''u1'', amount = 10000, transaction_type = ''deposit'',
           description = ''Deposit transaction'', balance_after = 20000\<rparr>]\<rparr>)"
  by (simp add: handler_unfold default_description_def transactions_transaction_type_check_def
      example_defs)

lemma page_deposit50_example:
  "run_page_call ''u1'' page_deposit50 (Some asha) bank =
     (Success, Some (asha\<lparr>balance := 15000\<rparr>),
      \<lparr>profiles = [''u1'' \<mapsto> asha\<lparr>balance := 15000\<rparr>],
       transactions =
         [\<lparr>user_id = ''u1'', amount = 5000, transaction_type = ''deposit'',
           description = ''Account Deposit'', balance_after = 15000\<rparr>]\<rparr>)"
  by (simp add: page_defs update_balance_def insert_transaction_def
      transactions_transaction_type_check_def example_defs page_deposit50_def)

theorem default_description_witness:
  "fst (handleTransaction no_faults (Some ''u1'') 10000 Deposit 10000 [] bank) = Success
   \<and> fst (run_page_call ''u1'' page_deposit50 (Some asha) bank) = Success
   \<and> description (last (transactions
        (snd (handleTransaction no_faults (Some ''u1'') 10000 Deposit 10000 [] bank))))
       = ''Deposit transaction''"
  using default_description_written [of no_faults "''u1''" 10000 Deposit 10000 "[]" bank
      "snd (handleTransaction no_faults (Some ''u1'') 10000 Deposit 10000 [] bank)"
      page_deposit50 "Some asha"
      "fst (snd (run_page_call ''u1'' page_deposit50 (Some asha) bank))"
      "snd (snd (run_page_call ''u1'' page_deposit50 (Some asha) bank))"]
  unfolding deposit100_example page_deposit50_example
  by simp

text \<open>
  The claim as stated fails on the dashboard page: a deposit of 100.00, which has no
  description at all, is recorded as \<open>Account Deposit\<close>.
\<close>

theorem default_description_counterexample:
  "fst (handleDeposit no_faults ''u1'' (Some asha) (Some 10000) bank) = Success
   \<and> map description (transactions (snd (snd
        (handleDeposit no_faults ''u1'' (Some asha) (Some 10000) bank)))) = [''Account Deposit'']
   \<and> ''Account Deposit'' \<noteq> ''Deposit transaction''"
  by (simp add: handleDeposit_def update_balance_def insert_transaction_def
      transactions_transaction_type_check_def example_defs)

section \<open>Amounts that are not positive, and the cached balance of the dashboard page\<close>

text \<open>
  Claim C3. An amount that is not positive is turned away before any store call,
  whatever the kind, the user, the cached balance and the state of the store: both submit
  handlers of the banking operations component answer with the invalid-amount toast and
  leave the store as it was, and on the dashboard page the browser refuses to submit
  either form, so that neither \<open>handleDeposit\<close> nor \<open>handleWithdraw\<close> runs.
\<close>

theorem nonpositive_amount_rejected_before_store:
  assumes "amt \<le> 0"
  shows "handleDepositSubmit flt user cb amt descr db = (InvalidAmount, db)
       \<and> handleWithdrawSubmit flt user cb amt descr db = (InvalidAmount, db)
       \<and> deposit_form_submit pflt uid cached (Some amt) db = None
       \<and> withdraw_form_submit pflt uid cached (Some amt) db = None"
  using assms
  by (simp add: handleDepositSubmit_def handleWithdrawSubmit_def deposit_form_submit_def
      withdraw_form_submit_def deposit_form_valid_def withdraw_form_valid_def
      amount_input_valid_def split: option.splits)

theorem nonpositive_amount_witness:
  "(0::int) \<le> 0
   \<and> handleDepositSubmit no_faults (Some ''u1'') 10000 0 [] bank = (InvalidAmount, bank)
   \<and> handleWithdrawSubmit no_faults (Some ''u1'') 10000 0 [] bank = (InvalidAmount, bank)
   \<and> deposit_form_submit no_faults ''u1'' (Some asha) (Some 0) bank = None
   \<and> withdraw_form_submit no_faults ''u1'' (Some asha) (Some 0) bank = None"
  using nonpositive_amount_rejected_before_store [of 0 no_faults "Some ''u1''" 10000 "[]" bank
      no_faults "''u1''" "Some asha"]
  by simp

text \<open>
  Claim C4 asks that the balance that is written be computed from the balance read from
  the store at that moment. \<open>handleTransaction\<close> does so; the dashboard page's
  \<open>handleDeposit\<close> computes it from the page's \<open>profile\<close> state: with 100.00 stored and a
  cached balance of 20.00, a deposit of 50.00 stores 70.00, where \<open>handleTransaction\<close>
  handed the same cached balance stores 150.00.
\<close>

theorem page_deposit_writes_from_cached_balance:
  "stored_balance bank ''u1'' = Some 10000
   \<and> fst (handleDeposit no_faults ''u1'' (Some (asha\<lparr>balance := 2000\<rparr>)) (Some 5000) bank) = Success
   \<and> stored_balance (snd (snd (handleDeposit no_faults ''u1'' (Some (asha\<lparr>balance := 2000\<rparr>))
        (Some 5000) bank))) ''u1'' = Some 7000
   \<and> fst (handleTransaction no_faults (Some ''u1'') 2000 Deposit 5000 [] bank) = Success
   \<and> stored_balance (snd (handleTransaction no_faults (Some ''u1'') 2000 Deposit 5000 [] bank))
        ''u1'' = Some 15000"
  by (simp add: page_eval handler_unfold example_defs)

section \<open>The stored balance is never negative\<close>

lemma handleTransaction_balance_ok:
  assumes "balance_ok db u" and "ty = Withdraw \<or> 0 \<le> amt"
  shows "balance_ok (snd (handleTransaction flt (Some uid) cb ty amt descr db)) u"
  using assms
  by (cases ty)
    (auto simp: handler_unfold balance_ok_def split: option.splits if_splits)

lemma handleDeposit_balance_ok:
  assumes "balance_ok db u" and "deposit_form_valid cached field" and "cached_nonneg cached"
  shows "balance_ok (snd (snd (handleDeposit flt uid cached field db))) u"
  using assms
  by (auto simp: handleDeposit_def update_balance_def insert_transaction_def balance_ok_def
      deposit_form_valid_def amount_input_valid_def cached_nonneg_def Let_def
      split: option.splits if_splits)

lemma handleWithdraw_balance_ok:
  assumes "balance_ok db u" and "cached_nonneg cached"
  shows "balance_ok (snd (snd (handleWithdraw flt uid cached field db))) u"
  using assms
  by (auto simp: handleWithdraw_def update_balance_def insert_transaction_def balance_ok_def
      cached_nonneg_def Let_def split: option.splits if_splits)

lemma handleSaveProfile_balance_ok:
  assumes "balance_ok db u"
  shows "balance_ok (snd (snd (handleSaveProfile fault uid page db))) u"
  using assms
  by (auto simp: handleSaveProfile_def update_profile_def balance_ok_def
      split: option.splits if_splits)

lemma apply_event_balance_ok:
  assumes "balance_ok db u" and "receivable e"
  shows "balance_ok (apply_event uid e db) u"
proof (cases e)
  case (DepositSubmit flt cb amt descr)
  with assms(1) show ?thesis
    by (simp add: handleDepositSubmit_def handleTransaction_balance_ok)
next
  case (WithdrawSubmit flt cb amt descr)
  with assms(1) show ?thesis
    by (simp add: handleWithdrawSubmit_def handleTransaction_balance_ok)
next
  case (PageDeposit flt cached field)
  with assms show ?thesis by (simp add: handleDeposit_balance_ok)
next
  case (PageWithdraw flt cached field)
  with assms show ?thesis by (simp add: handleWithdraw_balance_ok)
next
  case (SaveProfile fault page)
  with assms(1) show ?thesis by (simp add: handleSaveProfile_balance_ok)
qed

text \<open>
  Claim C5. Let any users do, in any order and with any store faults, what the front-end
  lets them do: submit either form of the banking operations component with any amount,
  submit a form of the dashboard page that the browser accepts, save the profile form.
  A stored balance that is not negative stays so.
\<close>

theorem stored_balance_stays_nonnegative:
  assumes "balance_ok db u" and "list_all (\<lambda>x. receivable (snd x)) es"
  shows "balance_ok (run_events db es) u"
  using assms unfolding run_events_def
proof (induction es arbitrary: db)
  case Nil
  then show ?case by simp
next
  case (Cons x es)
  obtain uid e where x: "x = (uid, e)" by (cases x)
  from Cons.prems(2) x have e: "receivable e"
    and es: "list_all (\<lambda>x. receivable (snd x)) es" by simp_all
  from apply_event_balance_ok [OF Cons.prems(1) e]
  have "balance_ok (apply_event uid e db) u" .
  from Cons.IH [OF this es] x show ?case by simp
qed

lemma mixed_history_example:
  "stored_balance (run_events bank mixed_history) ''u1'' = Some 12100"
  by (simp add: run_events_def mixed_history_def handleDepositSubmit_def handler_unfold
      page_eval default_description_def example_defs)

lemma bank_balance_ok: "balance_ok bank ''u1''"
  by (simp add: balance_ok_def example_defs)

lemma mixed_history_receivable: "list_all (\<lambda>x. receivable (snd x)) mixed_history"
  by (simp add: mixed_history_def deposit_form_valid_def withdraw_form_valid_def
      amount_input_valid_def cached_nonneg_def)

theorem stored_balance_witness:
  "balance_ok bank ''u1''
   \<and> list_all (\<lambda>x. receivable (snd x)) mixed_history
   \<and> stored_balance (run_events bank mixed_history) ''u1'' = Some 12100
   \<and> balance_ok (run_events bank mixed_history) ''u1''"
  using stored_balance_stays_nonnegative [OF bank_balance_ok mixed_history_receivable]
    bank_balance_ok mixed_history_receivable mixed_history_example
  by simp

section \<open>The withdrawals card of the transactions page\<close>

lemma update_balance_transactions [simp]:
  "transactions (snd (update_balance fault uid v db)) = transactions db"
  by (simp add: update_balance_def split: option.splits)

lemma update_profile_transactions [simp]:
  "transactions (snd (update_profile fault uid f db)) = transactions db"
  by (simp add: update_profile_def split: option.splits)

lemma table_checked_cong: "transactions db' = transactions db \<Longrightarrow> table_checked db' = table_checked db"
  by (simp add: table_checked_def)

lemma update_balance_checked:
  "update_balance fault uid v db = (res, db1) \<Longrightarrow> table_checked db \<Longrightarrow> table_checked db1"
  by (auto simp: update_balance_def table_checked_def split: option.splits)

lemma update_profile_checked:
  "update_profile fault uid f db = (res, db1) \<Longrightarrow> table_checked db \<Longrightarrow> table_checked db1"
  by (auto simp: update_profile_def table_checked_def split: option.splits if_splits)

lemma insert_transaction_checked:
  "insert_transaction fault row db = (res, db1) \<Longrightarrow> table_checked db \<Longrightarrow> table_checked db1"
  by (auto simp: insert_transaction_def table_checked_def split: option.splits if_splits)

lemma handleTransaction_checked:
  "table_checked db \<Longrightarrow> table_checked (snd (handleTransaction flt user cb ty amt descr db))"
  by (auto simp: handleTransaction_def select_profile_def Let_def
      split: option.splits prod.splits response.splits
      intro: update_balance_checked insert_transaction_checked)

lemma handleDeposit_checked:
  "table_checked db \<Longrightarrow> table_checked (snd (snd (handleDeposit flt uid cached field db)))"
  by (auto simp: handleDeposit_def Let_def
      split: option.splits prod.splits response.splits
      intro: update_balance_checked insert_transaction_checked)

lemma handleWithdraw_checked:
  "table_checked db \<Longrightarrow> table_checked (snd (snd (handleWithdraw flt uid cached field db)))"
  by (auto simp: handleWithdraw_def Let_def
      split: option.splits prod.splits response.splits
      intro: update_balance_checked insert_transaction_checked)

lemma handleSaveProfile_checked:
  "table_checked db \<Longrightarrow> table_checked (snd (snd (handleSaveProfile fault uid page db)))"
  by (auto simp: handleSaveProfile_def
      split: option.splits prod.splits response.splits
      intro: update_profile_checked)

lemma apply_event_checked:
  "table_checked db \<Longrightarrow> table_checked (apply_event uid e db)"
  by (cases e)
    (simp_all add: handleDepositSubmit_def handleWithdrawSubmit_def handleTransaction_checked
      handleDeposit_checked handleWithdraw_checked handleSaveProfile_checked)

lemma run_events_checked:
  "table_checked db \<Longrightarrow> table_checked (run_events db es)"
  unfolding run_events_def
  by (induction es arbitrary: db) (auto simp: apply_event_checked)

text \<open>
  Claim C8. Start from a transactions table whose rows pass the table's CHECK, which
  admits the literals \<open>deposit\<close> and \<open>withdraw\<close> only, and let any users do anything the
  front-end offers, in any order and with any store faults. The rows still pass the
  CHECK, so a withdrawal is recorded as \<open>withdraw\<close>, and the Total Withdrawals card of the
  transactions page, which counts the rows whose type is \<open>withdrawal\<close>, shows 0 for every
  user.
\<close>

theorem total_withdrawals_always_zero:
  assumes "table_checked db"
  shows "table_checked (run_events db es)
       \<and> totalWithdrawals (fetchTransactions fault uid (run_events db es) []) = 0"
proof -
  from assms have c: "table_checked (run_events db es)" by (rule run_events_checked)
  then have "\<forall>t\<in>set (transactions (run_events db es)). transaction_type t \<noteq> ''withdrawal''"
    by (auto simp: table_checked_def transactions_transaction_type_check_def list_all_iff)
  then have "totalWithdrawals (fetchTransactions fault uid (run_events db es) []) = 0"
    by (auto simp: totalWithdrawals_def fetchTransactions_def select_transactions_def
        filter_empty_conv split: option.splits)
  with c show ?thesis by simp
qed

lemma deposit_then_withdraw_example:
  "transactions (run_events bank deposit_then_withdraw) =
       [\<lparr>user_id = ''u1'', amount = 5000, transaction_type = ''deposit'',
         description = ''Deposit transaction'', balance_after = 15000\<rparr>,
        \<lparr>user_id = ''u1'', amount = 3000, transaction_type = ''withdraw'',
         description = ''rent'', balance_after = 12000\<rparr>]"
  by (simp add: run_events_def deposit_then_withdraw_def handleDepositSubmit_def
      handleWithdrawSubmit_def handler_unfold default_description_def
      transactions_transaction_type_check_def example_defs)

lemma bank_checked: "table_checked bank"
  by (simp add: table_checked_def bank_def)

theorem total_withdrawals_witness:
  "table_checked bank
   \<and> map transaction_type (fetchTransactions None ''u1'' (run_events bank deposit_then_withdraw) [])
        = [''withdraw'', ''deposit'']
   \<and> totalDeposits (fetchTransactions None ''u1'' (run_events bank deposit_then_withdraw) []) = 1
   \<and> totalWithdrawals (fetchTransactions None ''u1'' (run_events bank deposit_then_withdraw) []) = 0"
  using total_withdrawals_always_zero [of bank deposit_then_withdraw None "''u1''"]
  unfolding fetchTransactions_def select_transactions_def
  by (simp add: deposit_then_withdraw_example totalDeposits_def bank_checked)

section \<open>Saving the profile form with the account type \<open>fixed\<close>\<close>

text \<open>
  Claim C10. The account type select of the profile form offers \<open>fixed\<close>, which the
  CHECK of the profiles table does not admit. For a user whose profile row exists and
  whose profile page has loaded it, saving the form with that value makes the store
  answer with an error (the CHECK violation when nothing else goes wrong) and leaves the
  store as it was; the handler shows the error toast and keeps the page's state.
\<close>

theorem fixed_account_type_is_refused:
  assumes "profile page = Some p" and "profiles db uid = Some r"
    and "account_type (editForm page) = ''fixed''"
  shows "''fixed'' \<in> set account_type_options
       \<and> \<not> profiles_account_type_check (account_type (editForm page))
       \<and> (\<exists>msg. update_profile fault uid (editForm page) db = (Error msg, db))
       \<and> update_profile None uid (editForm page) db
            = (Error (check_violation ''profiles_account_type_check''), db)
       \<and> handleSaveProfile fault uid page db = (Failed ''Failed to update profile'', page, db)"
  using assms
  by (auto simp: account_type_options_def profiles_account_type_check_def update_profile_def
      handleSaveProfile_def split: option.splits)

theorem fixed_account_type_witness:
  "profile editing_fixed = Some asha \<and> profiles bank ''u1'' = Some asha
   \<and> account_type (editForm editing_fixed) = ''fixed''
   \<and> handleSaveProfile None ''u1'' editing_fixed bank
        = (Failed ''Failed to update profile'', editing_fixed, bank)"
  using fixed_account_type_is_refused [of editing_fixed asha bank "''u1''" asha None]
  by (simp add: editing_fixed_def bank_def)

section \<open>Invocations that overlap\<close>

text \<open>After the funds checks have passed, the update and the insert of both models agree.\<close>

lemma write_steps:
  assumes "update_balance (update_fault flt) uid v db = (res1, db1)"
    and "insert_transaction (insert_fault flt)
            \<lparr>user_id = uid, amount = amt, transaction_type = type_literal ty,
             description = default_description ty descr, balance_after = v\<rparr> db1 = (res2, db2)"
  shows "(case task_step flt uid cb ty amt descr (Fetched v) db of
            (t2, d2) \<Rightarrow> task_step flt uid cb ty amt descr t2 d2)
       = (case res1 of
            Error msg \<Rightarrow> (Done (Failed (error_description msg)), db1)
          | Data _ \<Rightarrow>
              (case res2 of
                 Error msg \<Rightarrow> (Done (Failed (error_description msg)), db2)
               | Data _ \<Rightarrow> (Done Success, db2)))"
  using assms by (cases res1; cases res2) (simp_all add: task_step_def)

lemma three_steps_handleTransaction:
  "three_steps flt uid cb ty amt descr db =
     (case handleTransaction flt (Some uid) cb ty amt descr db of (out, db') \<Rightarrow> (Done out, db'))"
proof (cases "select_profile (fetch_fault flt) uid db")
  case (Error msg)
  then show ?thesis by (cases ty) (simp_all add: phase_defs)
next
  case (Data p)
  let ?v = "if ty = Deposit then balance p + amt else balance p - amt"
  obtain res1 db1 where u: "update_balance (update_fault flt) uid ?v db = (res1, db1)"
    by fastforce
  obtain res2 db2 where i: "insert_transaction (insert_fault flt)
      \<lparr>user_id = uid, amount = amt, transaction_type = type_literal ty,
       description = default_description ty descr, balance_after = ?v\<rparr> db1 = (res2, db2)"
    by fastforce
  note w = write_steps [OF u i, of cb]
  show ?thesis
  proof (cases ty)
    case Deposit
    with Data u i w show ?thesis
      by (cases res1; cases res2) (simp_all add: phase_defs)
  next
    case Withdraw
    show ?thesis
    proof (cases "cb < amt \<or> balance p < amt")
      case True
      with Withdraw Data show ?thesis by (auto simp: phase_defs)
    next
      case False
      with Withdraw Data u i w show ?thesis
        by (cases res1; cases res2) (simp_all add: phase_defs)
    qed
  qed
qed

lemma deposits_in_sequence:
  assumes "profiles db uid = Some r"
    and "\<forall>c\<in>set cs. call_type c = Deposit \<and> call_amount c = a \<and> call_faults c = no_faults"
  shows "fst (run_calls (Some uid) db cs) = replicate (length cs) Success
       \<and> stored_balance (snd (run_calls (Some uid) db cs)) uid
            = Some (balance r + int (length cs) * a)
       \<and> length (transactions (snd (run_calls (Some uid) db cs)))
            = length (transactions db) + length cs"
  using assms
proof (induction cs arbitrary: db r)
  case Nil
  then show ?case by (simp add: stored_balance_def)
next
  case (Cons c cs)
  from Cons.prems(2) have c: "call_type c = Deposit" "call_amount c = a" "call_faults c = no_faults"
    and cs: "\<forall>c\<in>set cs. call_type c = Deposit \<and> call_amount c = a \<and> call_faults c = no_faults"
    by simp_all
  define db1 where "db1 = db\<lparr>profiles := (profiles db)(uid \<mapsto> r\<lparr>balance := balance r + a\<rparr>),
              transactions := transactions db @
                [\<lparr>user_id = uid, amount = a, transaction_type = ''deposit'',
                  description = default_description Deposit (call_description c),
                  balance_after = balance r + a\<rparr>]\<rparr>"
  have step: "run_call (Some uid) c db = (Success, db1)"
    using Cons.prems(1) c
    by (simp add: run_call_def handler_unfold no_faults_def db1_def
        transactions_transaction_type_check_def)
  have r1: "profiles db1 uid = Some (r\<lparr>balance := balance r + a\<rparr>)"
    by (simp add: db1_def)
  from Cons.IH [OF r1 cs] have
    "fst (run_calls (Some uid) db1 cs) = replicate (length cs) Success"
    "stored_balance (snd (run_calls (Some uid) db1 cs)) uid
            = Some (balance r + a + int (length cs) * a)"
    "length (transactions (snd (run_calls (Some uid) db1 cs)))
            = length (transactions db1) + length cs"
    by simp_all
  moreover have "length (transactions db1) = length (transactions db) + 1"
    by (simp add: db1_def)
  ultimately show ?case
    using step by (simp add: case_prod_beta algebra_simps)
qed

lemma advance_once:
  assumes "i < length ts" and "i < length cs" and "call_step uid (cs ! i) (ts ! i) db = (t, db1)"
  shows "advance uid cs i (ts, db) = (ts[i := t], db1)"
  using assms by (simp add: advance_def call_step_def)

lemma call_step_thrice:
  assumes "call_step uid c Pending db = (t1, db1)"
    and "call_step uid c t1 db1 = (t2, db2)"
    and "call_step uid c t2 db2 = (t3, db3)"
  shows "t3 = Done (fst (run_call (Some uid) c db)) \<and> db3 = snd (run_call (Some uid) c db)"
proof -
  have "three_steps (call_faults c) uid (call_cached c) (call_type c) (call_amount c)
          (call_description c) db = (t3, db3)"
    using assms by (simp add: three_steps_def call_step_def)
  then show ?thesis
    by (simp add: three_steps_handleTransaction run_call_def case_prod_beta)
qed

lemma advance_thrice:
  assumes "i < length ts" and "i < length cs" and "ts ! i = Pending"
  shows "advance uid cs i (advance uid cs i (advance uid cs i (ts, db)))
       = (ts[i := Done (fst (run_call (Some uid) (cs ! i) db))],
          snd (run_call (Some uid) (cs ! i) db))"
proof -
  obtain t1 db1 where s1: "call_step uid (cs ! i) Pending db = (t1, db1)" by fastforce
  obtain t2 db2 where s2: "call_step uid (cs ! i) t1 db1 = (t2, db2)" by fastforce
  obtain t3 db3 where s3: "call_step uid (cs ! i) t2 db2 = (t3, db3)" by fastforce
  have a1: "advance uid cs i (ts, db) = (ts[i := t1], db1)"
    using advance_once [OF assms(1,2)] s1 assms(3) by simp
  have a2: "advance uid cs i (ts[i := t1], db1) = (ts[i := t2], db2)"
    using advance_once [of i "ts[i := t1]" cs uid db1 t2 db2] s2 assms(1,2) by simp
  have a3: "advance uid cs i (ts[i := t2], db2) = (ts[i := t3], db3)"
    using advance_once [of i "ts[i := t2]" cs uid db2 t3 db3] s3 assms(1,2) by simp
  from call_step_thrice [OF s1 s2 s3] show ?thesis
    unfolding a1 a2 a3 by simp
qed

lemma run_calls_Cons:
  "run_calls user db (c # cs) =
     (fst (run_call user c db) # fst (run_calls user (snd (run_call user c db)) cs),
      snd (run_calls user (snd (run_call user c db)) cs))"
  by (simp add: case_prod_beta)

lemma run_calls_snoc:
  "run_calls user db (cs @ [c]) =
     (fst (run_calls user db cs) @ [fst (run_call user c (snd (run_calls user db cs)))],
      snd (run_call user c (snd (run_calls user db cs))))"
  by (induction cs arbitrary: db) (simp_all add: case_prod_beta)

lemma length_run_calls: "length (fst (run_calls user db cs)) = length cs"
  by (induction cs arbitrary: db) (simp_all add: case_prod_beta)

lemma serial_Suc: "serial (Suc k) = serial k @ [k, k, k]"
  by (simp add: serial_def)

lemma serial_prefix:
  assumes "k \<le> length cs"
  shows "run_schedule uid cs (serial k) (replicate (length cs) Pending, db)
       = (map Done (fst (run_calls (Some uid) db (take k cs))) @ replicate (length cs - k) Pending,
          snd (run_calls (Some uid) db (take k cs)))"
  using assms
proof (induction k)
  case 0
  then show ?case by (simp add: serial_def run_schedule_def)
next
  case (Suc k)
  let ?outs = "fst (run_calls (Some uid) db (take k cs))"
  let ?db1 = "snd (run_calls (Some uid) db (take k cs))"
  let ?ts = "map Done ?outs @ replicate (length cs - k) Pending"
  from Suc.prems have k: "k < length cs" by simp
  have len: "length ?outs = k" using k by (simp add: length_run_calls)
  have prev: "run_schedule uid cs (serial k) (replicate (length cs) Pending, db) = (?ts, ?db1)"
    using Suc.IH k by simp
  have i1: "k < length ?ts" using k len by simp
  have i3: "?ts ! k = Pending" using k len by (simp add: nth_append)
  have "run_schedule uid cs (serial (Suc k)) (replicate (length cs) Pending, db)
      = advance uid cs k (advance uid cs k (advance uid cs k (?ts, ?db1)))"
    using prev by (simp add: serial_Suc run_schedule_def)
  also have "\<dots> = (?ts[k := Done (fst (run_call (Some uid) (cs ! k) ?db1))],
                    snd (run_call (Some uid) (cs ! k) ?db1))"
    by (rule advance_thrice [OF i1 k i3])
  finally have run: "run_schedule uid cs (serial (Suc k)) (replicate (length cs) Pending, db)
      = (?ts[k := Done (fst (run_call (Some uid) (cs ! k) ?db1))],
         snd (run_call (Some uid) (cs ! k) ?db1))" .
  have tk: "take (Suc k) cs = take k cs @ [cs ! k]"
    using k by (simp add: take_Suc_conv_app_nth)
  have outs': "fst (run_calls (Some uid) db (take (Suc k) cs))
      = ?outs @ [fst (run_call (Some uid) (cs ! k) ?db1)]"
    and db': "snd (run_calls (Some uid) db (take (Suc k) cs))
      = snd (run_call (Some uid) (cs ! k) ?db1)"
    unfolding tk run_calls_snoc by simp_all
  have rep: "replicate (length cs - k) Pending = Pending # replicate (length cs - Suc k) Pending"
    using k by (metis Suc_diff_Suc replicate_Suc)
  have "?ts[k := Done (fst (run_call (Some uid) (cs ! k) ?db1))]
      = map Done (?outs @ [fst (run_call (Some uid) (cs ! k) ?db1)])
          @ replicate (length cs - Suc k) Pending"
    using len unfolding rep by (simp add: list_update_append)
  with run outs' db' show ?case by simp
qed

lemma serial_schedule_run_calls:
  "run_schedule uid cs (serial (length cs)) (replicate (length cs) Pending, db)
     = (map Done (fst (run_calls (Some uid) db cs)), snd (run_calls (Some uid) db cs))"
  using serial_prefix [of "length cs" cs uid db] by simp

lemma deposit_step:
  assumes "call_type c = Deposit" and "call_faults c = no_faults" and "profiles db uid \<noteq> None"
    and "finished t \<longrightarrow> t = Done Success"
    and "call_step uid c t db = (t', db')"
  shows "profiles db' uid \<noteq> None \<and> (finished t' \<longrightarrow> t' = Done Success)
       \<and> length (transactions db') + succeeded t = length (transactions db) + succeeded t'"
  using assms
  by (cases t)
    (auto simp: call_step_def task_step_def select_profile_def update_balance_def
      insert_transaction_def transactions_transaction_type_check_def no_faults_def
      finished_def succeeded_def Let_def split: option.splits)

lemma sum_list_succeeded_update:
  assumes "i < length ts"
  shows "sum_list (map succeeded (ts[i := t])) + succeeded (ts ! i)
       = sum_list (map succeeded ts) + succeeded t"
  using assms
proof (induction ts arbitrary: i)
  case Nil
  then show ?case by simp
next
  case (Cons x xs)
  then show ?case by (cases i) auto
qed

lemma advance_deposits_inv:
  assumes "\<forall>c\<in>set cs. call_type c = Deposit \<and> call_faults c = no_faults"
    and "deposits_inv uid m cfg"
  shows "deposits_inv uid m (advance uid cs i cfg)"
proof (cases "i < length (fst cfg) \<and> i < length cs")
  case False
  with assms(2) show ?thesis by (cases cfg) (auto simp: advance_def)
next
  case True
  obtain ts db where cfg: "cfg = (ts, db)" by (cases cfg)
  from True cfg have i: "i < length ts" "i < length cs" by simp_all
  obtain t' db' where st: "call_step uid (cs ! i) (ts ! i) db = (t', db')" by fastforce
  from assms(1) i have c: "call_type (cs ! i) = Deposit" "call_faults (cs ! i) = no_faults"
    by simp_all
  from assms(2) cfg have row: "profiles db uid \<noteq> None"
    and ok: "list_all (\<lambda>t. finished t \<longrightarrow> t = Done Success) ts"
    and len: "length (transactions db) = m + sum_list (map succeeded ts)"
    by (simp_all add: deposits_inv_def)
  from ok i have ti: "finished (ts ! i) \<longrightarrow> ts ! i = Done Success"
    by (simp add: list_all_length)
  from deposit_step [OF c row ti st] have row': "profiles db' uid \<noteq> None"
    and t': "finished t' \<longrightarrow> t' = Done Success"
    and l': "length (transactions db') + succeeded (ts ! i)
               = length (transactions db) + succeeded t'"
    by simp_all
  have adv: "advance uid cs i cfg = (ts[i := t'], db')"
    using advance_once [OF i st] cfg by simp
  have ok': "list_all (\<lambda>t. finished t \<longrightarrow> t = Done Success) (ts[i := t'])"
    using ok t' i by (auto simp: list_all_length nth_list_update)
  have "length (transactions db') = m + sum_list (map succeeded (ts[i := t']))"
    using l' len sum_list_succeeded_update [OF i(1), of t'] by simp
  with row' ok' adv show ?thesis by (simp add: deposits_inv_def)
qed

lemma run_schedule_deposits_inv:
  assumes "\<forall>c\<in>set cs. call_type c = Deposit \<and> call_faults c = no_faults"
    and "deposits_inv uid m cfg"
  shows "deposits_inv uid m (run_schedule uid cs sched cfg)"
  using assms(2) unfolding run_schedule_def
  by (induction sched arbitrary: cfg) (simp_all add: advance_deposits_inv [OF assms(1)])

lemma length_advance: "length (fst (advance uid cs i cfg)) = length (fst cfg)"
  by (cases cfg) (simp add: advance_def case_prod_beta)

lemma length_run_schedule: "length (fst (run_schedule uid cs sched cfg)) = length (fst cfg)"
  unfolding run_schedule_def
  by (induction sched arbitrary: cfg) (simp_all add: length_advance)

lemma all_succeeded:
  assumes "list_all (\<lambda>t. finished t \<longrightarrow> t = Done Success) ts" and "list_all finished ts"
  shows "ts = replicate (length ts) (Done Success) \<and> sum_list (map succeeded ts) = length ts"
  using assms by (induction ts) (auto simp: succeeded_def)

lemma deposits_any_schedule:
  assumes "profiles db uid = Some r"
    and "\<forall>c\<in>set cs. call_type c = Deposit \<and> call_faults c = no_faults"
    and "run_schedule uid cs sched (replicate (length cs) Pending, db) = (ts, db')"
    and "list_all finished ts"
  shows "ts = replicate (length cs) (Done Success)
       \<and> length (transactions db') = length (transactions db) + length cs"
proof -
  have "deposits_inv uid (length (transactions db)) (replicate (length cs) Pending, db)"
    using assms(1) by (simp add: deposits_inv_def finished_def succeeded_def list_all_length)
  from run_schedule_deposits_inv [OF assms(2) this, of sched] assms(3)
  have ok: "list_all (\<lambda>t. finished t \<longrightarrow> t = Done Success) ts"
    and len: "length (transactions db') = length (transactions db) + sum_list (map succeeded ts)"
    by (simp_all add: deposits_inv_def)
  have n: "length ts = length cs"
    using length_run_schedule [of uid cs sched "(replicate (length cs) Pending, db)"] assms(3)
    by simp
  from all_succeeded [OF ok assms(4)] have a: "ts = replicate (length ts) (Done Success)"
    and b: "sum_list (map succeeded ts) = length ts" by simp_all
  have "length (transactions db') = length (transactions db) + length cs"
    using len b n by simp
  moreover have "ts = replicate (length cs) (Done Success)"
    using a n by simp
  ultimately show ?thesis by simp
qed

text \<open>
  Claim C9, as amended. Take \<open>N\<close> deposits for one owner whose profile row holds \<open>B0\<close>,
  each of amount \<open>a\<close>, with no store call failing. However their store calls interleave,
  once all of them have finished every one has reported success and exactly \<open>N\<close> records
  have been appended. When they run one after another, each making its read, its update
  and its insert before the next one starts, the stored balance ends at \<open>B0 + N * a\<close>.
\<close>

theorem deposits_under_schedules:
  assumes "profiles db uid = Some r"
    and "\<forall>c\<in>set cs. call_type c = Deposit \<and> call_amount c = a \<and> call_faults c = no_faults"
    and "run_schedule uid cs sched (replicate (length cs) Pending, db) = (ts, db')"
    and "list_all finished ts"
    and "run_schedule uid cs (serial (length cs)) (replicate (length cs) Pending, db) = (ts1, db1)"
  shows "ts = replicate (length cs) (Done Success)
       \<and> length (transactions db') = length (transactions db) + length cs
       \<and> ts1 = replicate (length cs) (Done Success)
       \<and> stored_balance db1 uid = Some (balance r + int (length cs) * a)
       \<and> length (transactions db1) = length (transactions db) + length cs"
proof -
  from assms(2) have deps: "\<forall>c\<in>set cs. call_type c = Deposit \<and> call_faults c = no_faults"
    by simp
  from assms(5) have ts1: "ts1 = map Done (fst (run_calls (Some uid) db cs))"
    and db1: "db1 = snd (run_calls (Some uid) db cs)"
    by (simp_all add: serial_schedule_run_calls)
  from deposits_any_schedule [OF assms(1) deps assms(3,4)]
    deposits_in_sequence [OF assms(1,2)] ts1 db1
  show ?thesis by simp
qed

lemma two_deposits_serial:
  "serial (length two_deposits) = [0, 0, 0, 1, 1, 1]"
  "replicate (length two_deposits) Pending = [Pending, Pending]"
  "int (length two_deposits) = 2"
  "length (transactions bank) + length two_deposits = 2"
  by (simp_all add: serial_def two_deposits_def bank_def)

lemmas schedule_defs = run_schedule_def advance_def task_step_def two_deposits_def
  select_profile_def update_balance_def insert_transaction_def
  transactions_transaction_type_check_def default_description_def Let_def

lemma interleaved_finished:
  "list_all finished
     (fst (run_schedule ''u1'' two_deposits [0, 1, 0, 1, 0, 1] ([Pending, Pending], bank)))
   = True"
  by (simp add: schedule_defs finished_def example_defs deposit50_def)

theorem deposits_under_schedules_witness:
  "profiles bank ''u1'' = Some asha
   \<and> call_type deposit50 = Deposit \<and> call_amount deposit50 = 5000
   \<and> call_faults deposit50 = no_faults
   \<and> list_all finished
        (fst (run_schedule ''u1'' two_deposits [0, 1, 0, 1, 0, 1] ([Pending, Pending], bank)))
   \<and> fst (run_schedule ''u1'' two_deposits [0, 1, 0, 1, 0, 1] ([Pending, Pending], bank))
        = [Done Success, Done Success]
   \<and> length (transactions (snd (run_schedule ''u1'' two_deposits [0, 1, 0, 1, 0, 1]
        ([Pending, Pending], bank)))) = 2
   \<and> fst (run_schedule ''u1'' two_deposits [0, 0, 0, 1, 1, 1] ([Pending, Pending], bank))
        = [Done Success, Done Success]
   \<and> stored_balance (snd (run_schedule ''u1'' two_deposits [0, 0, 0, 1, 1, 1]
        ([Pending, Pending], bank))) ''u1'' = Some 20000
   \<and> length (transactions (snd (run_schedule ''u1'' two_deposits [0, 0, 0, 1, 1, 1]
        ([Pending, Pending], bank)))) = 2"
  using deposits_under_schedules [of bank "''u1''" asha two_deposits 5000 "[0, 1, 0, 1, 0, 1]"
      "fst (run_schedule ''u1'' two_deposits [0, 1, 0, 1, 0, 1] ([Pending, Pending], bank))"
      "snd (run_schedule ''u1'' two_deposits [0, 1, 0, 1, 0, 1] ([Pending, Pending], bank))"
      "fst (run_schedule ''u1'' two_deposits [0, 0, 0, 1, 1, 1] ([Pending, Pending], bank))"
      "snd (run_schedule ''u1'' two_deposits [0, 0, 0, 1, 1, 1] ([Pending, Pending], bank))"]
  unfolding two_deposits_serial interleaved_finished
  by (simp add: two_deposits_def deposit50_def bank_def asha_def)

text \<open>
  The claim as stated fails when two deposits of 50.00 on 100.00 overlap: both read
  100.00 before either writes, both write 150.00, both report success and both append a
  record with balance 150.00. The stored balance is 150.00, not 200.00.
\<close>

theorem interleaved_deposits_counterexample:
  "fst (run_schedule ''u1'' two_deposits [0, 1] ([Pending, Pending], bank))
        = [Fetched 15000, Fetched 15000]
   \<and> fst (run_schedule ''u1'' two_deposits [0, 1, 0, 1, 0, 1] ([Pending, Pending], bank))
        = [Done Success, Done Success]
   \<and> stored_balance bank ''u1'' = Some 10000
   \<and> stored_balance (snd (run_schedule ''u1'' two_deposits [0, 1, 0, 1, 0, 1]
        ([Pending, Pending], bank))) ''u1'' = Some 15000
   \<and> stored_balance (snd (run_schedule ''u1'' two_deposits [0, 1, 0, 1, 0, 1]
        ([Pending, Pending], bank))) ''u1'' \<noteq> Some (10000 + 2 * 5000)
   \<and> map balance_after (transactions (snd (run_schedule ''u1'' two_deposits [0, 1, 0, 1, 0, 1]
        ([Pending, Pending], bank)))) = [15000, 15000]"
  by (simp add: schedule_defs stored_balance_def example_defs deposit50_def)

end
